theory Spec2Isabelle
  imports Complex_Main
begin

section \<open>Data model of the event join workflow\<close>

text \<open>
  The handlers of \<^verbatim>\<open>backend/src/routes/events.js\<close> read one Event document, change it in
  memory and write it back with \<^verbatim>\<open>event.save()\<close>. The Mongoose schema of the document
  (\<^verbatim>\<open>models/Event.js\<close>) is not part of the sources, so the fields are typed by the way the
  handlers use them:
  \<^item> ids (users, requests, events) are strings and are compared by equality, as
    \<^verbatim>\<open>p.toString() === userId\<close> does;
  \<^item> \<^verbatim>\<open>capacity\<close> may be missing (\<^verbatim>\<open>event.capacity?.max\<close>, \<^verbatim>\<open>if (event.capacity)\<close>), and so may
    \<^verbatim>\<open>capacity.max\<close> (\<^verbatim>\<open>event.capacity?.max || 1000\<close>); \<^verbatim>\<open>capacity.current\<close> and
    \<^verbatim>\<open>capacity.max\<close> are JavaScript Numbers, which need not be whole, and are reals here,
    as is \<^verbatim>\<open>pricing.amount\<close> (\<^verbatim>\<open>NaN\<close> and the infinities are left out);
  \<^item> \<^verbatim>\<open>pricing\<close> may be missing (\<^verbatim>\<open>event.pricing && ...\<close>);
  \<^item> \<^verbatim>\<open>joinRequests\<close> may be something that is not an array
    (\<^verbatim>\<open>if (!Array.isArray(event.joinRequests))\<close>), which is \<open>None\<close> here;
  \<^item> the status of a request is one of the three strings the handlers write or test.
\<close>

type_synonym user_id = string
type_synonym request_id = string
type_synonym event_id = string

datatype request_status = Pending | Approved | Rejected

record join_request =
  req_id :: request_id
  user :: user_id
  transactionCode :: string
  requestedAt :: nat
  status :: request_status

datatype pricing_type = Free | Paid

record pricing_rec =
  ptype :: pricing_type
  amount :: real
  currency :: string

record capacity_rec =
  current :: real
  max_cap :: "real option"

record event =
  organizer :: user_id
  capacity :: "capacity_rec option"
  participants :: "user_id list"
  waitlist :: "user_id list"
  joinRequests :: "join_request list option"
  requiresApproval :: bool
  pricing :: "pricing_rec option"

text \<open>
  Every \<^verbatim>\<open>return res.status(...).json({ error: ... })\<close> of the handlers is one constructor.
  \<open>InternalError\<close> is the \<^verbatim>\<open>catch\<close> block of a handler (status 500), reached when the body
  throws, for instance a \<^verbatim>\<open>TypeError\<close> on reading a field of \<^verbatim>\<open>undefined\<close>.
\<close>

datatype error =
    NotFound
  | Forbidden
  | AlreadyJoined
  | DuplicateRequest
  | CapacityExceeded
  | PaymentRequired real string
  | AlreadyProcessed
  | NotAParticipant
  | InternalError

fun http_status :: "error \<Rightarrow> nat" where
  "http_status NotFound = 404"
| "http_status Forbidden = 403"
| "http_status InternalError = 500"
| "http_status _ = 400"

datatype outcome = Joined | PendingApproval | RequestApproved | RequestRejected | LeftEvent

type_synonym result = "error + (outcome \<times> event)"

section \<open>Helpers for the JavaScript primitives the handlers use\<close>

text \<open>\<^verbatim>\<open>!transactionCode\<close>: a missing code and the empty string are both falsy.\<close>

definition truthy :: "string option \<Rightarrow> bool" where
  "truthy tc = (case tc of None \<Rightarrow> False | Some s \<Rightarrow> s \<noteq> [])"

text \<open>\<^verbatim>\<open>transactionCode || "FREE"\<close>\<close>

definition codeOrFree :: "string option \<Rightarrow> string" where
  "codeOrFree tc = (case tc of None \<Rightarrow> ''FREE'' | Some s \<Rightarrow> if s = [] then ''FREE'' else s)"

text \<open>\<^verbatim>\<open>Array.prototype.indexOf\<close>: the first position of the element, \<open>None\<close> for \<open>-1\<close>.\<close>

fun indexOf :: "'a list \<Rightarrow> 'a \<Rightarrow> nat option" where
  "indexOf [] x = None"
| "indexOf (y # ys) x = (if y = x then Some 0 else map_option Suc (indexOf ys x))"

text \<open>\<^verbatim>\<open>xs.splice(index, 1)\<close>: the list without the element at \<open>index\<close>.\<close>

definition splice1 :: "nat \<Rightarrow> 'a list \<Rightarrow> 'a list" where
  "splice1 index xs = take index xs @ drop (Suc index) xs"

text \<open>
  \<^verbatim>\<open>event.joinRequests.id(requestId)\<close> returns the first sub-document with that \<^verbatim>\<open>_id\<close>;
  \<^verbatim>\<open>request.status = s\<close> then writes into that sub-document, in place.
\<close>

definition findRequest :: "request_id \<Rightarrow> join_request list \<Rightarrow> join_request option" where
  "findRequest requestId rs = find (\<lambda>r. req_id r = requestId) rs"

fun setStatus :: "request_id \<Rightarrow> request_status \<Rightarrow> join_request list \<Rightarrow> join_request list" where
  "setStatus requestId s [] = []"
| "setStatus requestId s (r # rs) =
     (if req_id r = requestId then r\<lparr>status := s\<rparr> # rs else r # setStatus requestId s rs)"

text \<open>The requests of an event, after \<^verbatim>\<open>if (!Array.isArray(...)) event.joinRequests = []\<close>.\<close>

definition requestsOf :: "event \<Rightarrow> join_request list" where
  "requestsOf e = (case joinRequests e of None \<Rightarrow> [] | Some rs \<Rightarrow> rs)"

section \<open>POST /events/:id/join\<close>

text \<open>\<^verbatim>\<open>const maxCapacity = event.capacity?.max || 1000\<close>: a missing capacity, a missing
  \<^verbatim>\<open>max\<close> and the falsy number \<open>0\<close> all give 1000.\<close>

definition maxCapacity :: "event \<Rightarrow> real" where
  "maxCapacity e =
     (case capacity e of
        None \<Rightarrow> 1000
      | Some c \<Rightarrow> (case max_cap c of None \<Rightarrow> 1000 | Some m \<Rightarrow> if m = 0 then 1000 else m))"

text \<open>\<^verbatim>\<open>event.participants.length >= maxCapacity\<close>\<close>

definition isFull :: "event \<Rightarrow> bool" where
  "isFull e = (maxCapacity e \<le> real (length (participants e)))"

text \<open>\<^verbatim>\<open>isPaid && !transactionCode\<close>, with the amount and currency the response carries.\<close>

definition paymentMissing :: "event \<Rightarrow> string option \<Rightarrow> (real \<times> string) option" where
  "paymentMissing e tc =
     (case pricing e of
        None \<Rightarrow> None
      | Some p \<Rightarrow> if ptype p = Paid \<and> \<not> truthy tc then Some (amount p, currency p) else None)"

text \<open>\<^verbatim>\<open>event.joinRequests.some(req => req.user.toString() === userId && req.status === "pending")\<close>\<close>

definition hasPendingRequest :: "event \<Rightarrow> user_id \<Rightarrow> bool" where
  "hasPendingRequest e userId =
     list_ex (\<lambda>r. user r = userId \<and> status r = Pending) (requestsOf e)"

text \<open>
  The handler body after the event has been found. \<open>newId\<close> is the \<^verbatim>\<open>_id\<close> Mongoose gives
  the pushed sub-document and \<open>now\<close> is \<^verbatim>\<open>new Date()\<close>. The result \<open>Inr (out, e')\<close> is the
  document that \<^verbatim>\<open>event.save()\<close> writes; an \<open>Inl\<close> result returns before any save. The
  save itself and the socket notification sent after it (\<^verbatim>\<open>io.emit\<close>, which reads the
  populated organizer) are taken to succeed; the notification is not part of the result.
\<close>

definition attemptJoin ::
  "event \<Rightarrow> user_id \<Rightarrow> string option \<Rightarrow> request_id \<Rightarrow> nat \<Rightarrow> result" where
  "attemptJoin e userId tc newId now =
     (if list_ex (\<lambda>p. p = userId) (participants e) then Inl AlreadyJoined
      else if isFull e then Inl CapacityExceeded
      else case paymentMissing e tc of
        Some (a, c) \<Rightarrow> Inl (PaymentRequired a c)
      | None \<Rightarrow>
          if requiresApproval e \<and> hasPendingRequest e userId then Inl DuplicateRequest
          else if requiresApproval e then
            Inr (PendingApproval,
                 e\<lparr>joinRequests := Some (requestsOf e @
                      [\<lparr>req_id = newId, user = userId, transactionCode = codeOrFree tc,
                        requestedAt = now, status = Pending\<rparr>])\<rparr>)
          else
            Inr (Joined,
                 e\<lparr>joinRequests := Some (requestsOf e),
                   participants := participants e @ [userId],
                   capacity := map_option
                     (\<lambda>c. c\<lparr>current := real (length (participants e @ [userId]))\<rparr>)
                     (capacity e)\<rparr>))"

section \<open>POST /events/:id/approve-request/:requestId and reject-request\<close>

text \<open>\<^verbatim>\<open>event.capacity.current >= event.capacity.max\<close>; against a missing \<^verbatim>\<open>max\<close>
  (\<^verbatim>\<open>undefined\<close>) the comparison is false.\<close>

definition atCapacity :: "capacity_rec \<Rightarrow> bool" where
  "atCapacity c = (case max_cap c of None \<Rightarrow> False | Some m \<Rightarrow> m \<le> current c)"

definition approveRequest :: "event \<Rightarrow> request_id \<Rightarrow> user_id \<Rightarrow> result" where
  "approveRequest e requestId approver =
     (if organizer e \<noteq> approver then Inl Forbidden
      else case joinRequests e of
        None \<Rightarrow> Inl InternalError
      | Some rs \<Rightarrow>
          (case findRequest requestId rs of
             None \<Rightarrow> Inl NotFound
           | Some request \<Rightarrow>
               if status request \<noteq> Pending then Inl AlreadyProcessed
               else case capacity e of
                 None \<Rightarrow> Inl InternalError
               | Some c \<Rightarrow>
                   if atCapacity c then Inl CapacityExceeded
                   else Inr (RequestApproved,
                             e\<lparr>joinRequests := Some (setStatus requestId Approved rs),
                               participants := participants e @ [user request],
                               capacity := Some (c\<lparr>current := current c + 1\<rparr>)\<rparr>)))"

definition rejectRequest :: "event \<Rightarrow> request_id \<Rightarrow> user_id \<Rightarrow> result" where
  "rejectRequest e requestId approver =
     (if organizer e \<noteq> approver then Inl Forbidden
      else case joinRequests e of
        None \<Rightarrow> Inl InternalError
      | Some rs \<Rightarrow>
          (case findRequest requestId rs of
             None \<Rightarrow> Inl NotFound
           | Some request \<Rightarrow>
               if status request \<noteq> Pending then Inl AlreadyProcessed
               else Inr (RequestRejected,
                         e\<lparr>joinRequests := Some (setStatus requestId Rejected rs)\<rparr>)))"

section \<open>POST /events/:id/leave\<close>

text \<open>
  After the participant check the handler reads \<^verbatim>\<open>event.capacity.current\<close> without a guard,
  so a document without a capacity throws and nothing is saved.
\<close>

definition leave :: "event \<Rightarrow> user_id \<Rightarrow> result" where
  "leave e userId =
     (case indexOf (participants e) userId of
        None \<Rightarrow> Inl NotAParticipant
      | Some index \<Rightarrow>
          (case capacity e of
             None \<Rightarrow> Inl InternalError
           | Some c \<Rightarrow>
               (case waitlist e of
                  [] \<Rightarrow>
                    Inr (LeftEvent,
                         e\<lparr>participants := splice1 index (participants e),
                           capacity := Some (c\<lparr>current := current c - 1\<rparr>)\<rparr>)
                | nextUser # rest \<Rightarrow>
                    Inr (LeftEvent,
                         e\<lparr>participants := splice1 index (participants e) @ [nextUser],
                           waitlist := rest,
                           capacity := Some (c\<lparr>current := current c - 1 + 1\<rparr>)\<rparr>))))"

section \<open>The handlers over the stored documents\<close>

text \<open>
  \<^verbatim>\<open>Event.findById\<close> gives \<^verbatim>\<open>null\<close> for an unknown id (status 404). A handler that fails
  returns before \<^verbatim>\<open>event.save()\<close>, so the stored documents stay as they were; a handler
  that succeeds stores the changed document under the same id.
\<close>

type_synonym db = "event_id \<rightharpoonup> event"

definition handle :: "db \<Rightarrow> event_id \<Rightarrow> (event \<Rightarrow> result) \<Rightarrow> (error + outcome) \<times> db" where
  "handle store eventId body =
     (case store eventId of
        None \<Rightarrow> (Inl NotFound, store)
      | Some e \<Rightarrow>
          (case body e of
             Inl err \<Rightarrow> (Inl err, store)
           | Inr (out, e') \<Rightarrow> (Inr out, store(eventId \<mapsto> e'))))"

definition joinRoute ::
  "db \<Rightarrow> event_id \<Rightarrow> user_id \<Rightarrow> string option \<Rightarrow> request_id \<Rightarrow> nat \<Rightarrow> (error + outcome) \<times> db" where
  "joinRoute store eventId userId tc newId now =
     handle store eventId (\<lambda>e. attemptJoin e userId tc newId now)"

definition approveRoute :: "db \<Rightarrow> event_id \<Rightarrow> request_id \<Rightarrow> user_id \<Rightarrow> (error + outcome) \<times> db" where
  "approveRoute store eventId requestId approver =
     handle store eventId (\<lambda>e. approveRequest e requestId approver)"

definition rejectRoute :: "db \<Rightarrow> event_id \<Rightarrow> request_id \<Rightarrow> user_id \<Rightarrow> (error + outcome) \<times> db" where
  "rejectRoute store eventId requestId approver =
     handle store eventId (\<lambda>e. rejectRequest e requestId approver)"

definition leaveRoute :: "db \<Rightarrow> event_id \<Rightarrow> user_id \<Rightarrow> (error + outcome) \<times> db" where
  "leaveRoute store eventId userId = handle store eventId (\<lambda>e. leave e userId)"

section \<open>Sequences of operations on one event\<close>

datatype operation =
    AttemptJoin user_id "string option" request_id nat
  | ApproveRequest request_id user_id
  | RejectRequest request_id user_id
  | Leave user_id

fun perform :: "event \<Rightarrow> operation \<Rightarrow> result" where
  "perform e (AttemptJoin userId tc newId now) = attemptJoin e userId tc newId now"
| "perform e (ApproveRequest requestId approver) = approveRequest e requestId approver"
| "perform e (RejectRequest requestId approver) = rejectRequest e requestId approver"
| "perform e (Leave userId) = leave e userId"

text \<open>The document after an operation: the saved one, or the old one when it failed.\<close>

definition after :: "event \<Rightarrow> operation \<Rightarrow> event" where
  "after e op = (case perform e op of Inl err \<Rightarrow> e | Inr (out, e') \<Rightarrow> e')"

fun run :: "event \<Rightarrow> operation list \<Rightarrow> event" where
  "run e [] = e"
| "run e (op # ops) = run (after e op) ops"

section \<open>The predicates of the specification\<close>



text \<open>\<open>capacity.max\<close> is present and equal to \<open>m\<close>.\<close>

definition hasMax :: "event \<Rightarrow> real \<Rightarrow> bool" where
  "hasMax e m = (case capacity e of None \<Rightarrow> False | Some c \<Rightarrow> max_cap c = Some m)"


text \<open>\<open>capacity\<close> is missing, or \<open>capacity.max\<close> is missing or zero.\<close>

definition unsetMax :: "event \<Rightarrow> bool" where
  "unsetMax e =
     (case capacity e of
        None \<Rightarrow> True
      | Some c \<Rightarrow> (case max_cap c of None \<Rightarrow> True | Some m \<Rightarrow> m = 0))"

text \<open>
  What one operation, or a sequence of them, may do to a request: leave it as it is, or
  turn a pending one into an approved or a rejected one, all other fields kept.
\<close>

definition stepOk :: "join_request \<Rightarrow> join_request \<Rightarrow> bool" where
  "stepOk r r' =
     (r' = r \<or>
      (status r = Pending \<and> (r' = r\<lparr>status := Approved\<rparr> \<or> r' = r\<lparr>status := Rejected\<rparr>)))"

section \<open>Example documents\<close>

definition freePricing :: pricing_rec where
  "freePricing = \<lparr>ptype = Free, amount = 0, currency = ''USD''\<rparr>"

definition paidPricing :: pricing_rec where
  "paidPricing = \<lparr>ptype = Paid, amount = 20, currency = ''USD''\<rparr>"

text \<open>One participant out of five, free, joined without approval.\<close>

definition openEvent :: event where
  "openEvent =
     \<lparr>organizer = ''org'', capacity = Some \<lparr>current = 1, max_cap = Some 5\<rparr>,
      participants = [''u1''], waitlist = [], joinRequests = Some [],
      requiresApproval = False, pricing = Some freePricing\<rparr>"

text \<open>The scenario \<open>{current:1, max:5}\<close>, approval required, paid.\<close>

definition paidEvent :: event where
  "paidEvent = openEvent\<lparr>requiresApproval := True, pricing := Some paidPricing\<rparr>"

text \<open>An empty event whose \<open>capacity.max\<close> is zero.\<close>

definition zeroMaxEvent :: event where
  "zeroMaxEvent =
     openEvent\<lparr>capacity := Some \<lparr>current = 0, max_cap = Some 0\<rparr>, participants := []\<rparr>"

text \<open>An empty event whose \<open>capacity.current\<close> is not the number of participants, as
  \<^verbatim>\<open>Event.create({...req.body})\<close> stores it when the request body says so.\<close>

definition driftedEvent :: event where
  "driftedEvent =
     openEvent\<lparr>capacity := Some \<lparr>current = 5, max_cap = Some 10\<rparr>, participants := []\<rparr>"

text \<open>Two participants and a \<open>capacity.max\<close> of two and a half.\<close>

definition fractionalMaxEvent :: event where
  "fractionalMaxEvent =
     openEvent\<lparr>capacity := Some \<lparr>current = 2, max_cap = Some (5 / 2)\<rparr>,
       participants := [''u1'', ''u2'']\<rparr>"

text \<open>The scenario \<open>{current:2, max:2}\<close>, empty waitlist, no approval.\<close>

definition fullEvent :: event where
  "fullEvent =
     openEvent\<lparr>capacity := Some \<lparr>current = 2, max_cap = Some 2\<rparr>,
       participants := [''u1'', ''u2'']\<rparr>"

text \<open>The scenario \<open>waitlist=[A,B]\<close>, \<open>participants=[U1,U2]\<close>.\<close>

definition waitlistEvent :: event where
  "waitlistEvent =
     openEvent\<lparr>capacity := Some \<lparr>current = 2, max_cap = Some 2\<rparr>,
       participants := [''U1'', ''U2''], waitlist := [''A'', ''B'']\<rparr>"

text \<open>An empty event with one place, approval required.\<close>

definition smallApprovalEvent :: event where
  "smallApprovalEvent =
     openEvent\<lparr>capacity := Some \<lparr>current = 0, max_cap = Some 1\<rparr>,
       participants := [], requiresApproval := True\<rparr>"

text \<open>An event with one approved, one rejected and one pending request.\<close>

definition processedEvent :: event where
  "processedEvent =
     openEvent\<lparr>requiresApproval := True,
       joinRequests := Some
         [\<lparr>req_id = ''r1'', user = ''u1'', transactionCode = ''FREE'', requestedAt = 1,
           status = Approved\<rparr>,
          \<lparr>req_id = ''r2'', user = ''u2'', transactionCode = ''FREE'', requestedAt = 2,
           status = Rejected\<rparr>,
          \<lparr>req_id = ''r3'', user = ''u3'', transactionCode = ''FREE'', requestedAt = 3,
           status = Pending\<rparr>]\<rparr>"

text \<open>A thousand participants and a \<open>capacity.max\<close> of zero.\<close>

definition crowdedEvent :: event where
  "crowdedEvent =
     openEvent\<lparr>capacity := Some \<lparr>current = 1000, max_cap = Some 0\<rparr>,
       participants := replicate 1000 ''u1''\<rparr>"

lemmas example_defs =
  openEvent_def paidEvent_def zeroMaxEvent_def driftedEvent_def fullEvent_def
  fractionalMaxEvent_def
  waitlistEvent_def smallApprovalEvent_def processedEvent_def crowdedEvent_def
  freePricing_def paidPricing_def

lemmas handler_defs =
  attemptJoin_def approveRequest_def rejectRequest_def leave_def isFull_def maxCapacity_def
  paymentMissing_def hasPendingRequest_def requestsOf_def codeOrFree_def truthy_def
  findRequest_def atCapacity_def splice1_def after_def

section \<open>Facts about the helpers\<close>





lemma length_setStatus: "length (setStatus rid s rs) = length rs"
  by (induction rs) auto

lemma list_ex_eq: "list_ex (\<lambda>p. p = x) xs \<longleftrightarrow> x \<in> set xs"
  by (auto simp: list_ex_iff)

lemma hasMax_maxCapacity: "hasMax e m \<Longrightarrow> m \<noteq> 0 \<Longrightarrow> maxCapacity e = m"
  by (auto simp: hasMax_def maxCapacity_def split: option.splits)

lemma paymentMissing_None_iff:
  "paymentMissing e tc = None \<longleftrightarrow>
     (case pricing e of None \<Rightarrow> True | Some p \<Rightarrow> ptype p \<noteq> Paid \<or> truthy tc)"
  by (auto simp: paymentMissing_def split: option.splits)

text \<open>Writing a status through \<open>setStatus\<close> touches at most a pending request.\<close>

lemma setStatus_nth:
  assumes "findRequest rid rs = Some r" and "status r = Pending" and "i < length rs"
  shows "setStatus rid s rs ! i = rs ! i \<or>
         (status (rs ! i) = Pending \<and> setStatus rid s rs ! i = (rs ! i)\<lparr>status := s\<rparr>)"
  using assms
proof (induction rs arbitrary: i)
  case Nil
  then show ?case by simp
next
  case (Cons x xs)
  show ?case
  proof (cases "req_id x = rid")
    case True
    with Cons.prems have "x = r" by (simp add: findRequest_def)
    with True Cons.prems show ?thesis by (cases i) auto
  next
    case False
    with Cons.prems have f: "findRequest rid xs = Some r" by (simp add: findRequest_def)
    show ?thesis
    proof (cases i)
      case 0
      with False show ?thesis by simp
    next
      case (Suc j)
      with Cons.prems have "j < length xs" by simp
      from Cons.IH [OF f Cons.prems(2) this] False Suc show ?thesis by simp
    qed
  qed
qed

lemma stepOk_refl: "stepOk r r"
  by (simp add: stepOk_def)

lemma stepOk_trans: "stepOk r r' \<Longrightarrow> stepOk r' r'' \<Longrightarrow> stepOk r r''"
  by (auto simp: stepOk_def)

section \<open>What each handler does to the requests\<close>

lemma attemptJoin_requests:
  assumes "attemptJoin e u tc n t = Inr (out, e')" and "i < length (requestsOf e)"
  shows "i < length (requestsOf e') \<and> requestsOf e' ! i = requestsOf e ! i"
  using assms
  by (auto simp: attemptJoin_def requestsOf_def nth_append
      split: if_splits option.splits prod.splits)

lemma approveRequest_requests:
  assumes "approveRequest e rid a = Inr (out, e')" and "i < length (requestsOf e)"
  shows "i < length (requestsOf e') \<and> stepOk (requestsOf e ! i) (requestsOf e' ! i)"
proof -
  from assms(1) obtain rs r where rs: "joinRequests e = Some rs"
    and r: "findRequest rid rs = Some r" "status r = Pending"
    and e': "joinRequests e' = Some (setStatus rid Approved rs)"
    by (auto simp: approveRequest_def split: if_splits option.splits)
  from rs assms(2) have i: "i < length rs" by (simp add: requestsOf_def)
  from setStatus_nth [OF r i, of Approved] rs e' i show ?thesis
    by (auto simp: requestsOf_def stepOk_def length_setStatus)
qed

lemma rejectRequest_requests:
  assumes "rejectRequest e rid a = Inr (out, e')" and "i < length (requestsOf e)"
  shows "i < length (requestsOf e') \<and> stepOk (requestsOf e ! i) (requestsOf e' ! i)"
proof -
  from assms(1) obtain rs r where rs: "joinRequests e = Some rs"
    and r: "findRequest rid rs = Some r" "status r = Pending"
    and e': "joinRequests e' = Some (setStatus rid Rejected rs)"
    by (auto simp: rejectRequest_def split: if_splits option.splits)
  from rs assms(2) have i: "i < length rs" by (simp add: requestsOf_def)
  from setStatus_nth [OF r i, of Rejected] rs e' i show ?thesis
    by (auto simp: requestsOf_def stepOk_def length_setStatus)
qed

lemma leave_requests:
  assumes "leave e u = Inr (out, e')"
  shows "requestsOf e' = requestsOf e"
  using assms
  by (auto simp: leave_def requestsOf_def split: option.splits list.splits)

lemma after_requests:
  assumes "i < length (requestsOf e)"
  shows "i < length (requestsOf (after e op)) \<and>
         stepOk (requestsOf e ! i) (requestsOf (after e op) ! i)"
proof (cases "perform e op")
  case (Inl err)
  with assms show ?thesis by (simp add: after_def stepOk_refl)
next
  case (Inr p)
  obtain out e' where p: "p = (out, e')" by (cases p)
  with Inr have a: "after e op = e'" by (simp add: after_def)
  show ?thesis
  proof (cases op)
    case (AttemptJoin u tc n t)
    with Inr p attemptJoin_requests [OF _ assms, of u tc n t out e'] a show ?thesis
      by (simp add: stepOk_refl)
  next
    case (ApproveRequest rid ap)
    with Inr p approveRequest_requests [OF _ assms, of rid ap out e'] a show ?thesis
      by simp
  next
    case (RejectRequest rid ap)
    with Inr p rejectRequest_requests [OF _ assms, of rid ap out e'] a show ?thesis
      by simp
  next
    case (Leave u)
    with Inr p leave_requests [of e u out e'] a assms show ?thesis
      by (simp add: stepOk_refl)
  qed
qed

lemma run_requests:
  "i < length (requestsOf e) \<Longrightarrow>
   i < length (requestsOf (run e ops)) \<and>
   stepOk (requestsOf e ! i) (requestsOf (run e ops) ! i)"
proof (induction ops arbitrary: e)
  case Nil
  then show ?case by (simp add: stepOk_refl)
next
  case (Cons op ops)
  from after_requests [OF Cons.prems, of op]
  have 1: "i < length (requestsOf (after e op))"
    and 2: "stepOk (requestsOf e ! i) (requestsOf (after e op) ! i)" by auto
  from Cons.IH [OF 1] 2 show ?case
    by (auto intro: stepOk_trans)
qed

section \<open>What each handler does to the capacity ledger\<close>






section \<open>The claims\<close>

subsection \<open>C1: the capacity bound\<close>




subsection \<open>C2: a full event refuses every join\<close>

text \<open>
  C2, as amended. On an event whose \<open>capacity.max\<close> is not zero and equals the number of
  participants, attemptJoin by a user who is not a participant fails with
  CapacityExceeded, whatever \<open>requiresApproval\<close> is, and the stored documents stay as they
  were: no join request is created.
\<close>

theorem full_event_rejects_join:
  assumes "hasMax e m" and "m \<noteq> 0" and "real (length (participants e)) = m"
    and "userId \<notin> set (participants e)" and "store eventId = Some e"
  shows "attemptJoin e userId tc newId now = Inl CapacityExceeded \<and>
         joinRoute store eventId userId tc newId now = (Inl CapacityExceeded, store)"
proof -
  from assms(1-3) have "isFull e"
    by (simp add: isFull_def hasMax_maxCapacity)
  with assms(4) have "attemptJoin e userId tc newId now = Inl CapacityExceeded"
    by (simp add: attemptJoin_def list_ex_eq)
  with assms(5) show ?thesis
    by (simp add: joinRoute_def handle_def)
qed

text \<open>
  The amended statement at the scenario \<open>{current: 2, max: 2}\<close>, with and without the
  approval gate.
\<close>

theorem full_event_rejects_join_witness:
  "attemptJoin fullEvent ''userX'' None ''r1'' 7 = Inl CapacityExceeded \<and>
   joinRoute [''e1'' \<mapsto> fullEvent] ''e1'' ''userX'' None ''r1'' 7 =
     (Inl CapacityExceeded, [''e1'' \<mapsto> fullEvent]) \<and>
   attemptJoin (fullEvent\<lparr>requiresApproval := True\<rparr>) ''userX'' None ''r1'' 7 =
     Inl CapacityExceeded"
proof -
  have h1: "hasMax fullEvent 2" "hasMax (fullEvent\<lparr>requiresApproval := True\<rparr>) 2"
    by (simp_all add: example_defs hasMax_def)
  have h2: "real (length (participants fullEvent)) = 2"
    "real (length (participants (fullEvent\<lparr>requiresApproval := True\<rparr>))) = 2"
    by (simp_all add: example_defs)
  have h3: "''userX'' \<notin> set (participants fullEvent)"
    "''userX'' \<notin> set (participants (fullEvent\<lparr>requiresApproval := True\<rparr>))"
    by (simp_all add: example_defs)
  from full_event_rejects_join
      [where e = fullEvent and m = 2 and userId = "''userX''" and eventId = "''e1''"
         and store = "[''e1'' \<mapsto> fullEvent]" and tc = None and newId = "''r1''" and now = 7]
    full_event_rejects_join
      [where e = "fullEvent\<lparr>requiresApproval := True\<rparr>" and m = 2 and userId = "''userX''"
         and eventId = "''e1''" and store = "[''e1'' \<mapsto> fullEvent\<lparr>requiresApproval := True\<rparr>]"
         and tc = None and newId = "''r1''" and now = 7]
    h1 h2 h3
  show ?thesis by simp
qed

text \<open>
  C2 as stated fails where \<open>capacity.max\<close> is zero: the empty event with \<open>max = 0\<close> has as
  many participants as \<open>capacity.max\<close> says, and with the approval gate on attemptJoin
  creates a pending request; with the gate off it does not fail with CapacityExceeded
  either.
\<close>

theorem zero_max_admits_request:
  "hasMax (zeroMaxEvent\<lparr>requiresApproval := True\<rparr>) 0 \<and>
   real (length (participants (zeroMaxEvent\<lparr>requiresApproval := True\<rparr>))) = 0 \<and>
   attemptJoin (zeroMaxEvent\<lparr>requiresApproval := True\<rparr>) ''u1'' None ''r1'' 7 =
     Inr (PendingApproval,
          zeroMaxEvent\<lparr>requiresApproval := True,
            joinRequests := Some [\<lparr>req_id = ''r1'', user = ''u1'', transactionCode = ''FREE'',
                                  requestedAt = 7, status = Pending\<rparr>]\<rparr>) \<and>
   attemptJoin zeroMaxEvent ''u1'' None ''r1'' 7 \<noteq> Inl CapacityExceeded"
  by (simp add: example_defs handler_defs hasMax_def)

subsection \<open>C3: leave and the promotion from the waitlist\<close>



subsection \<open>C4: immediate admission\<close>

text \<open>
  C4, as amended. On an event with \<open>requiresApproval = false\<close>, fewer participants than
  \<open>capacity.max\<close>, a user who is not a participant and no missing transaction code,
  attemptJoin returns Joined, appends exactly that user to the participants and sets
  \<open>capacity.current\<close> to the new number of participants; this is \<open>capacity.current + 1\<close>
  whenever \<open>capacity.current\<close> was the number of participants before.
\<close>

theorem immediate_join:
  assumes "\<not> requiresApproval e" and "capacity e = Some c" and "max_cap c = Some m"
    and "real (length (participants e)) < m" and "userId \<notin> set (participants e)"
    and "paymentMissing e tc = None"
  shows "attemptJoin e userId tc newId now =
           Inr (Joined,
                e\<lparr>joinRequests := Some (requestsOf e),
                  participants := participants e @ [userId],
                  capacity := Some (c\<lparr>current := real (length (participants e)) + 1\<rparr>)\<rparr>) \<and>
         (current c = real (length (participants e)) \<longrightarrow>
            attemptJoin e userId tc newId now =
              Inr (Joined,
                   e\<lparr>joinRequests := Some (requestsOf e),
                     participants := participants e @ [userId],
                     capacity := Some (c\<lparr>current := current c + 1\<rparr>)\<rparr>))"
proof -
  from assms(2-4) have "maxCapacity e = m"
    by (auto simp: maxCapacity_def)
  with assms(4) have "\<not> isFull e" by (simp add: isFull_def)
  with assms show ?thesis
    by (simp add: attemptJoin_def list_ex_eq)
qed

text \<open>The amended statement at an event with one participant out of five.\<close>

theorem immediate_join_witness:
  "\<not> requiresApproval openEvent \<and> real (length (participants openEvent)) < 5 \<and>
   ''u2'' \<notin> set (participants openEvent) \<and> paymentMissing openEvent None = None \<and>
   attemptJoin openEvent ''u2'' None ''r1'' 7 =
     Inr (Joined,
          openEvent\<lparr>participants := [''u1'', ''u2''],
            capacity := Some \<lparr>current = 2, max_cap = Some 5\<rparr>\<rparr>)"
proof -
  have h: "\<not> requiresApproval openEvent"
    "capacity openEvent = Some \<lparr>current = 1, max_cap = Some 5\<rparr>"
    "max_cap \<lparr>current = 1, max_cap = Some 5\<rparr> = Some 5"
    "real (length (participants openEvent)) < 5"
    "''u2'' \<notin> set (participants openEvent)"
    "paymentMissing openEvent None = None"
    by (simp_all add: example_defs paymentMissing_def)
  have r: "openEvent\<lparr>joinRequests := Some (requestsOf openEvent),
             participants := participants openEvent @ [''u2''],
             capacity := Some (\<lparr>current = 1, max_cap = Some 5\<rparr>
               \<lparr>current := real (length (participants openEvent)) + 1\<rparr>)\<rparr> =
           openEvent\<lparr>participants := [''u1'', ''u2''],
             capacity := Some \<lparr>current = 2, max_cap = Some 5\<rparr>\<rparr>"
    by (simp add: example_defs requestsOf_def)
  from immediate_join [OF h, of "''r1''" 7] h r show ?thesis
    by simp
qed

text \<open>
  C4 as stated fails where \<open>capacity.current\<close> is not the number of participants: on the
  event with \<open>{current: 5, max: 10}\<close> and no participants the join succeeds and saves
  \<open>current = 1\<close>, not \<open>6\<close>.
\<close>

theorem drifted_join_recounts:
  "\<not> requiresApproval driftedEvent \<and> participants driftedEvent = [] \<and>
   capacity driftedEvent = Some \<lparr>current = 5, max_cap = Some 10\<rparr> \<and>
   attemptJoin driftedEvent ''u1'' None ''r1'' 7 =
     Inr (Joined, driftedEvent\<lparr>participants := [''u1''],
                    capacity := Some \<lparr>current = 1, max_cap = Some 10\<rparr>\<rparr>)"
  by (simp add: example_defs handler_defs)

subsection \<open>C5: a processed request cannot be approved again\<close>

text \<open>
  C5. When the organizer calls approveRequest with the id of a request whose status is
  approved or rejected, the handler fails with AlreadyProcessed and the stored
  documents, the event among them, stay exactly as they were.
\<close>

theorem approve_processed_no_mutation:
  assumes "store eventId = Some e" and "organizer e = approver"
    and "joinRequests e = Some rs" and "findRequest requestId rs = Some r"
    and "status r = Approved \<or> status r = Rejected"
  shows "approveRequest e requestId approver = Inl AlreadyProcessed \<and>
         approveRoute store eventId requestId approver = (Inl AlreadyProcessed, store)"
proof -
  from assms(5) have "status r \<noteq> Pending" by auto
  with assms(2-4) have "approveRequest e requestId approver = Inl AlreadyProcessed"
    by (simp add: approveRequest_def)
  with assms(1) show ?thesis
    by (simp add: approveRoute_def handle_def)
qed

text \<open>An approved and a rejected request of the same event.\<close>

theorem approve_processed_no_mutation_witness:
  "findRequest ''r1'' (requestsOf processedEvent) =
     Some \<lparr>req_id = ''r1'', user = ''u1'', transactionCode = ''FREE'', requestedAt = 1,
           status = Approved\<rparr> \<and>
   approveRoute [''e1'' \<mapsto> processedEvent] ''e1'' ''r1'' ''org'' =
     (Inl AlreadyProcessed, [''e1'' \<mapsto> processedEvent]) \<and>
   findRequest ''r2'' (requestsOf processedEvent) =
     Some \<lparr>req_id = ''r2'', user = ''u2'', transactionCode = ''FREE'', requestedAt = 2,
           status = Rejected\<rparr> \<and>
   approveRoute [''e1'' \<mapsto> processedEvent] ''e1'' ''r2'' ''org'' =
     (Inl AlreadyProcessed, [''e1'' \<mapsto> processedEvent])"
proof -
  have h: "organizer processedEvent = ''org''"
    "joinRequests processedEvent = Some (requestsOf processedEvent)"
    "findRequest ''r1'' (requestsOf processedEvent) =
       Some \<lparr>req_id = ''r1'', user = ''u1'', transactionCode = ''FREE'', requestedAt = 1,
             status = Approved\<rparr>"
    "findRequest ''r2'' (requestsOf processedEvent) =
       Some \<lparr>req_id = ''r2'', user = ''u2'', transactionCode = ''FREE'', requestedAt = 2,
             status = Rejected\<rparr>"
    by (simp_all add: example_defs requestsOf_def findRequest_def)
  from approve_processed_no_mutation
      [where store = "[''e1'' \<mapsto> processedEvent]" and eventId = "''e1''"
         and e = processedEvent and approver = "''org''"
         and rs = "requestsOf processedEvent" and requestId = "''r1''"
         and r = "\<lparr>req_id = ''r1'', user = ''u1'', transactionCode = ''FREE'',
                    requestedAt = 1, status = Approved\<rparr>"]
    approve_processed_no_mutation
      [where store = "[''e1'' \<mapsto> processedEvent]" and eventId = "''e1''"
         and e = processedEvent and approver = "''org''"
         and rs = "requestsOf processedEvent" and requestId = "''r2''"
         and r = "\<lparr>req_id = ''r2'', user = ''u2'', transactionCode = ''FREE'',
                    requestedAt = 2, status = Rejected\<rparr>"]
    h
  show ?thesis by simp
qed

subsection \<open>C6: a second request while one is pending\<close>

text \<open>
  C6, as amended. On an event with \<open>requiresApproval = true\<close>, attemptJoin by a user who
  has a pending request always fails and saves nothing, so no second pending request
  is created; the failure is DuplicateRequest when the user is not a participant, the
  event is not full and no transaction code is missing (AlreadyJoined,
  CapacityExceeded and PaymentRequired are checked first).
\<close>

theorem pending_request_blocks_join:
  assumes "requiresApproval e" and "hasPendingRequest e userId" and "store eventId = Some e"
  shows "(\<exists>err. attemptJoin e userId tc newId now = Inl err \<and>
                joinRoute store eventId userId tc newId now = (Inl err, store)) \<and>
         (userId \<notin> set (participants e) \<and> \<not> isFull e \<and> paymentMissing e tc = None \<longrightarrow>
            attemptJoin e userId tc newId now = Inl DuplicateRequest)"
  using assms
  by (auto simp: attemptJoin_def list_ex_eq joinRoute_def handle_def split: option.splits)

text \<open>
  The amended statement after a first request on an event with one place: the second
  call of the same user is a DuplicateRequest.
\<close>

theorem pending_request_blocks_join_witness:
  "requiresApproval (after smallApprovalEvent (AttemptJoin ''u1'' None ''r1'' 1)) \<and>
   hasPendingRequest (after smallApprovalEvent (AttemptJoin ''u1'' None ''r1'' 1)) ''u1'' \<and>
   attemptJoin (after smallApprovalEvent (AttemptJoin ''u1'' None ''r1'' 1))
     ''u1'' None ''r2'' 2 = Inl DuplicateRequest"
proof -
  let ?e = "after smallApprovalEvent (AttemptJoin ''u1'' None ''r1'' 1)"
  have e: "?e = smallApprovalEvent\<lparr>joinRequests := Some
      [\<lparr>req_id = ''r1'', user = ''u1'', transactionCode = ''FREE'', requestedAt = 1,
        status = Pending\<rparr>]\<rparr>"
    by (simp add: example_defs handler_defs)
  have h: "requiresApproval ?e" "hasPendingRequest ?e ''u1''"
    "''u1'' \<notin> set (participants ?e)" "\<not> isFull ?e" "paymentMissing ?e None = None"
    unfolding e by (simp_all add: example_defs handler_defs)
  from pending_request_blocks_join
      [where e = ?e and userId = "''u1''" and store = "[''e1'' \<mapsto> ?e]" and eventId = "''e1''"
         and tc = None and newId = "''r2''" and now = 2]
    h
  show ?thesis by simp
qed

text \<open>
  C6 as stated fails on a full event. An event with one place and the approval gate
  gets requests from \<open>u1\<close> and \<open>u2\<close>, the organizer approves \<open>u2\<close>, and \<open>u1\<close>, whose request
  is still pending, calls attemptJoin again: the answer is CapacityExceeded.
\<close>

theorem full_event_hides_duplicate:
  "requiresApproval
     (run smallApprovalEvent
        [AttemptJoin ''u1'' None ''r1'' 1, AttemptJoin ''u2'' None ''r2'' 2,
         ApproveRequest ''r2'' ''org'']) \<and>
   hasPendingRequest
     (run smallApprovalEvent
        [AttemptJoin ''u1'' None ''r1'' 1, AttemptJoin ''u2'' None ''r2'' 2,
         ApproveRequest ''r2'' ''org'']) ''u1'' \<and>
   attemptJoin
     (run smallApprovalEvent
        [AttemptJoin ''u1'' None ''r1'' 1, AttemptJoin ''u2'' None ''r2'' 2,
         ApproveRequest ''r2'' ''org'']) ''u1'' None ''r3'' 3 = Inl CapacityExceeded"
  by (simp add: example_defs handler_defs)

subsection \<open>C7: a paid event needs a transaction code\<close>

text \<open>
  C7. On an event with \<open>pricing.type = paid\<close>, attemptJoin without a transaction code
  (none at all, or the empty string), by a user who is not a participant and while the
  event is not full, fails with PaymentRequired, and the failure carries
  \<open>pricing.amount\<close> and \<open>pricing.currency\<close> of the event.
\<close>

theorem paid_join_without_code:
  assumes "pricing e = Some p" and "ptype p = Paid" and "\<not> truthy tc"
    and "userId \<notin> set (participants e)" and "\<not> isFull e"
  shows "attemptJoin e userId tc newId now = Inl (PaymentRequired (amount p) (currency p))"
  using assms by (simp add: attemptJoin_def list_ex_eq paymentMissing_def)

text \<open>The scenario \<open>{current: 1, max: 5}\<close>, approval required, paid, no code.\<close>

theorem paid_join_without_code_witness:
  "pricing paidEvent = Some paidPricing \<and> ptype paidPricing = Paid \<and> \<not> truthy None \<and>
   ''u2'' \<notin> set (participants paidEvent) \<and> \<not> isFull paidEvent \<and>
   attemptJoin paidEvent ''u2'' None ''r1'' 7 = Inl (PaymentRequired 20 ''USD'')"
proof -
  have h: "pricing paidEvent = Some paidPricing" "ptype paidPricing = Paid" "\<not> truthy None"
    "''u2'' \<notin> set (participants paidEvent)" "\<not> isFull paidEvent"
    by (simp_all add: example_defs truthy_def isFull_def maxCapacity_def)
  from paid_join_without_code [OF h, of "''r1''" 7] h show ?thesis
    by (simp add: paidPricing_def)
qed

subsection \<open>C8: joining twice\<close>

text \<open>
  C8, as amended. On an event with \<open>requiresApproval = false\<close> that is not full, for a
  user who is not yet a participant and with no transaction code missing, the first
  attemptJoin returns Joined and a second attemptJoin of the same user on the saved
  event fails with AlreadyJoined and leaves the stored documents unchanged.
\<close>

theorem join_twice:
  assumes "\<not> requiresApproval e" and "\<not> isFull e" and "userId \<notin> set (participants e)"
    and "paymentMissing e tc = None" and "store eventId = Some e"
  shows "\<exists>e'. attemptJoin e userId tc newId now = Inr (Joined, e') \<and>
           attemptJoin e' userId tc' newId' now' = Inl AlreadyJoined \<and>
           joinRoute store eventId userId tc newId now = (Inr Joined, store(eventId \<mapsto> e')) \<and>
           joinRoute (store(eventId \<mapsto> e')) eventId userId tc' newId' now' =
             (Inl AlreadyJoined, store(eventId \<mapsto> e'))"
  using assms
  by (simp add: attemptJoin_def list_ex_eq joinRoute_def handle_def)

text \<open>The amended statement at an event with one participant out of five.\<close>

theorem join_twice_witness:
  "\<not> requiresApproval openEvent \<and> \<not> isFull openEvent \<and>
   ''u2'' \<notin> set (participants openEvent) \<and> paymentMissing openEvent None = None \<and>
   (\<exists>e'. joinRoute [''e1'' \<mapsto> openEvent] ''e1'' ''u2'' None ''r1'' 7 =
            (Inr Joined, [''e1'' \<mapsto> e']) \<and>
          joinRoute [''e1'' \<mapsto> e'] ''e1'' ''u2'' None ''r2'' 8 =
            (Inl AlreadyJoined, [''e1'' \<mapsto> e']))"
proof -
  have h: "\<not> requiresApproval openEvent" "\<not> isFull openEvent"
    "''u2'' \<notin> set (participants openEvent)" "paymentMissing openEvent None = None"
    by (simp_all add: example_defs isFull_def maxCapacity_def paymentMissing_def)
  from join_twice
      [where e = openEvent and userId = "''u2''" and store = "[''e1'' \<mapsto> openEvent]"
         and eventId = "''e1''" and tc = None and newId = "''r1''" and now = 7
         and tc' = None and newId' = "''r2''" and now' = 8]
    h
  show ?thesis by auto
qed

text \<open>
  C8 as stated fails on a paid event when the call carries no transaction code (the
  first call is PaymentRequired), and for a user who already is a participant (the
  first call is AlreadyJoined); both events have no approval gate and spare capacity.
\<close>

theorem first_join_not_joined:
  "\<not> requiresApproval (openEvent\<lparr>pricing := Some paidPricing\<rparr>) \<and>
   \<not> isFull (openEvent\<lparr>pricing := Some paidPricing\<rparr>) \<and>
   attemptJoin (openEvent\<lparr>pricing := Some paidPricing\<rparr>) ''u2'' None ''r1'' 7 =
     Inl (PaymentRequired 20 ''USD'') \<and>
   \<not> requiresApproval openEvent \<and> \<not> isFull openEvent \<and>
   attemptJoin openEvent ''u1'' None ''r1'' 7 = Inl AlreadyJoined"
  by (simp add: example_defs handler_defs)

subsection \<open>C9: the status of a request is monotonic\<close>

text \<open>
  C9. The requests of an event are addressed by their position in \<open>joinRequests\<close>, which
  no operation removes or reorders. From any event state and along any sequence of
  attemptJoin, approveRequest, rejectRequest and leave calls (failed calls included), a
  request stays in the list; once its status is approved or rejected the request never
  changes again; and when its status differs from the earlier one, the earlier status
  was pending and the later one is approved or rejected.
\<close>

theorem request_status_monotonic:
  assumes "i < length (requestsOf e)"
  shows "i < length (requestsOf (run e ops)) \<and>
    (status (requestsOf e ! i) \<noteq> Pending \<longrightarrow>
       requestsOf (run e ops) ! i = requestsOf e ! i) \<and>
    (status (requestsOf (run e ops) ! i) \<noteq> status (requestsOf e ! i) \<longrightarrow>
       status (requestsOf e ! i) = Pending \<and>
       (status (requestsOf (run e ops) ! i) = Approved \<or>
        status (requestsOf (run e ops) ! i) = Rejected))"
  using run_requests [OF assms, of ops]
  by (auto simp: stepOk_def)

text \<open>
  An event with an approved, a rejected and a pending request: the organizer tries to
  reject the approved one, to approve the rejected one, and approves the pending one.
\<close>

theorem request_status_monotonic_witness:
  "map status (requestsOf processedEvent) = [Approved, Rejected, Pending] \<and>
   map status (requestsOf (run processedEvent
      [RejectRequest ''r1'' ''org'', ApproveRequest ''r2'' ''org'',
       ApproveRequest ''r3'' ''org'', RejectRequest ''r3'' ''org'', Leave ''u1'']))
     = [Approved, Rejected, Approved] \<and>
   requestsOf (run processedEvent
      [RejectRequest ''r1'' ''org'', ApproveRequest ''r2'' ''org'',
       ApproveRequest ''r3'' ''org'', RejectRequest ''r3'' ''org'', Leave ''u1'']) ! 0
     = requestsOf processedEvent ! 0"
proof -
  let ?ops = "[RejectRequest ''r1'' ''org'', ApproveRequest ''r2'' ''org'',
       ApproveRequest ''r3'' ''org'', RejectRequest ''r3'' ''org'', Leave ''u1'']"
  have h: "0 < length (requestsOf processedEvent)"
    "status (requestsOf processedEvent ! 0) \<noteq> Pending"
    by (simp_all add: example_defs requestsOf_def)
  have s: "map status (requestsOf processedEvent) = [Approved, Rejected, Pending]"
    by (simp add: example_defs requestsOf_def)
  have r: "map status (requestsOf (run processedEvent ?ops)) = [Approved, Rejected, Approved]"
    by (simp add: example_defs handler_defs)
  from request_status_monotonic [OF h(1), of ?ops] h s r show ?thesis
    by simp
qed

subsection \<open>C10: the default capacity\<close>

text \<open>
  C10. On an event without a capacity, or whose \<open>capacity.max\<close> is missing or zero, the
  limit attemptJoin uses is 1000: the capacity check refuses exactly when there are at
  least 1000 participants, and attemptJoin fails with CapacityExceeded exactly when the
  check is reached (the user is not a participant) and refuses.
\<close>

theorem default_capacity_1000:
  assumes "unsetMax e"
  shows "maxCapacity e = 1000 \<and>
    (isFull e \<longleftrightarrow> 1000 \<le> length (participants e)) \<and>
    (attemptJoin e userId tc newId now = Inl CapacityExceeded \<longleftrightarrow>
       userId \<notin> set (participants e) \<and> 1000 \<le> length (participants e))"
proof -
  from assms have m: "maxCapacity e = 1000"
    by (auto simp: unsetMax_def maxCapacity_def split: option.splits)
  then have f: "isFull e \<longleftrightarrow> 1000 \<le> length (participants e)"
    by (simp add: isFull_def)
  have "attemptJoin e userId tc newId now = Inl CapacityExceeded \<longleftrightarrow>
       userId \<notin> set (participants e) \<and> isFull e"
    by (auto simp: attemptJoin_def list_ex_eq split: option.splits)
  with m f show ?thesis by simp
qed

text \<open>
  A thousand participants and \<open>max = 0\<close>: the join is refused; no capacity at all and one
  participant: the check passes and the user joins.
\<close>

theorem default_capacity_1000_witness:
  "unsetMax crowdedEvent \<and>
   attemptJoin crowdedEvent ''u2'' None ''r1'' 7 = Inl CapacityExceeded \<and>
   unsetMax (openEvent\<lparr>capacity := None\<rparr>) \<and>
   maxCapacity (openEvent\<lparr>capacity := None\<rparr>) = 1000 \<and>
   \<not> isFull (openEvent\<lparr>capacity := None\<rparr>) \<and>
   attemptJoin (openEvent\<lparr>capacity := None\<rparr>) ''u2'' None ''r1'' 7 =
     Inr (Joined, openEvent\<lparr>capacity := None, participants := [''u1'', ''u2'']\<rparr>)"
proof -
  have h: "unsetMax crowdedEvent" "unsetMax (openEvent\<lparr>capacity := None\<rparr>)"
    by (simp_all add: example_defs unsetMax_def)
  have p: "''u2'' \<notin> set (participants crowdedEvent)"
    "length (participants crowdedEvent) = 1000"
    "length (participants (openEvent\<lparr>capacity := None\<rparr>)) = 1"
    by (simp_all add: example_defs)
  have j: "attemptJoin (openEvent\<lparr>capacity := None\<rparr>) ''u2'' None ''r1'' 7 =
     Inr (Joined, openEvent\<lparr>capacity := None, participants := [''u1'', ''u2'']\<rparr>)"
    by (simp add: example_defs handler_defs)
  from default_capacity_1000 [OF h(1), of "''u2''" None "''r1''" 7]
    default_capacity_1000 [OF h(2), of "''u2''" None "''r1''" 7] h p j
  show ?thesis by simp
qed

end
